theory Spec2Isabelle
  imports Main "HOL-Library.Word"
begin

section \<open>Package geo: a framework for geocode / reverse geocode clients\<close>

text \<open>
  A shallow embedding of \<^verbatim>\<open>geocoder.go\<close>.  The two provider capabilities
  (\<^verbatim>\<open>EndpointBuilder\<close>, \<^verbatim>\<open>ResponseParser\<close>) are Go interfaces, so their methods
  are parameters of the model.  The calls into the Go standard library whose outcome
  the program cannot decide (\<^verbatim>\<open>http.NewRequest\<close>, \<^verbatim>\<open>Client.Do\<close>,
  \<^verbatim>\<open>ioutil.ReadAll\<close>, \<^verbatim>\<open>json.Unmarshal\<close>) are fields of an environment record;
  \<^verbatim>\<open>strings.Trim\<close> and \<^verbatim>\<open>url.QueryEscape\<close> are pure and are written out.
\<close>

subsection \<open>Values\<close>

text \<open>
  Go's \<^verbatim>\<open>float64\<close> is an IEEE 754 binary64 value; the model keeps its 64-bit pattern
  (sign, 11 exponent bits, 52 fraction bits).  The program only ever compares a float
  with the constant \<^verbatim>\<open>0\<close>, so the one operation needed is Go's \<^verbatim>\<open>==\<close>: a NaN equals
  nothing, \<^verbatim>\<open>+0\<close> and \<^verbatim>\<open>-0\<close> are equal, every other value equals only itself.
\<close>

type_synonym float64 = "64 word"

definition f64_isNaN :: "float64 \<Rightarrow> bool" where
  "f64_isNaN x = (0x7FF0000000000000 < take_bit 63 x)"

definition f64_isZero :: "float64 \<Rightarrow> bool" where
  "f64_isZero x = (take_bit 63 x = 0)"

definition f64_eq :: "float64 \<Rightarrow> float64 \<Rightarrow> bool" where
  "f64_eq x y =
     (\<not> f64_isNaN x \<and> \<not> f64_isNaN y \<and> (x = y \<or> (f64_isZero x \<and> f64_isZero y)))"

text \<open>\<^verbatim>\<open>type Location struct { Lat, Lng float64 }\<close>\<close>

record Location =
  Lat :: float64
  Lng :: float64

text \<open>The zero value \<^verbatim>\<open>Location{}\<close>.\<close>

definition Location_zero :: Location where
  "Location_zero = \<lparr>Lat = 0, Lng = 0\<rparr>"

text \<open>Go's \<^verbatim>\<open>==\<close> on the struct: field by field.\<close>

definition Location_eq :: "Location \<Rightarrow> Location \<Rightarrow> bool" where
  "Location_eq a b = (f64_eq (Lat a) (Lat b) \<and> f64_eq (Lng a) (Lng b))"

text \<open>
  Go \<^verbatim>\<open>error\<close> values.  The package declares the two sentinels \<^verbatim>\<open>TimeoutError\<close> and
  \<^verbatim>\<open>NoResultError\<close>; every error made by the standard library (URL parsing, transport,
  body read, JSON decoding) is an \<open>OtherError\<close> with its message.  \<open>None\<close> is \<^verbatim>\<open>nil\<close>.
\<close>

datatype error = TimeoutError | NoResultError | OtherError string

text \<open>
  \<^verbatim>\<open>time.Duration\<close> counts nanoseconds.
  \<^verbatim>\<open>var timeoutInSeconds = time.Second * 8\<close>
\<close>

type_synonym duration = int

definition Second :: duration where
  "Second = 1000000000"

definition timeoutInSeconds :: duration where
  "timeoutInSeconds = Second * 8"

subsection \<open>The result classifier\<close>

text \<open>
  \<^verbatim>\<open>anyError(v interface{})\<close> switches on the dynamic type of its argument: a
  \<^verbatim>\<open>Location\<close>, a \<^verbatim>\<open>string\<close>, or anything else (no case matches and the named result
  \<^verbatim>\<open>err\<close> is returned as it was initialised, \<^verbatim>\<open>nil\<close>).
\<close>

datatype any = ALocation Location | AString string | AOther

fun anyError :: "any \<Rightarrow> error option" where
  "anyError (ALocation v) =
     (if f64_eq (Lat v) 0 \<and> f64_eq (Lng v) 0 then Some NoResultError else None)"
| "anyError (AString v) = (if v = [] then Some NoResultError else None)"
| "anyError AOther = None"

subsection \<open>Standard-library string functions the program calls\<close>

text \<open>
  \<^verbatim>\<open>strings.Trim(s, cutset)\<close> returns \<^verbatim>\<open>s\<close> without its leading and trailing
  characters that occur in \<^verbatim>\<open>cutset\<close>.  The only cutset the program passes is
  \<^verbatim>\<open>" []"\<close>, three ASCII characters, for which Go trims byte by byte, first on the
  right and then on the left.  A Go string is a byte sequence, as \<open>string\<close> is here.
\<close>

definition TrimLeft :: "string \<Rightarrow> string \<Rightarrow> string" where
  "TrimLeft s cutset = dropWhile (\<lambda>c. c \<in> set cutset) s"

definition TrimRight :: "string \<Rightarrow> string \<Rightarrow> string" where
  "TrimRight s cutset = rev (dropWhile (\<lambda>c. c \<in> set cutset) (rev s))"

definition Trim :: "string \<Rightarrow> string \<Rightarrow> string" where
  "Trim s cutset = TrimLeft (TrimRight s cutset) cutset"

text \<open>
  \<^verbatim>\<open>url.QueryEscape(s)\<close>: every byte except the unreserved ones (ASCII letters and
  digits, \<^verbatim>\<open>-\<close>, \<^verbatim>\<open>_\<close>, \<^verbatim>\<open>.\<close>, \<^verbatim>\<open>~\<close>) is escaped; a space becomes \<^verbatim>\<open>+\<close>, any other
  escaped byte becomes \<^verbatim>\<open>%XX\<close> with two upper-case hexadecimal digits.
\<close>

definition shouldEscape :: "char \<Rightarrow> bool" where
  "shouldEscape c =
     (let n = (of_char c :: nat) in
      \<not> ((97 \<le> n \<and> n \<le> 122) \<or> (65 \<le> n \<and> n \<le> 90) \<or> (48 \<le> n \<and> n \<le> 57)
         \<or> c = CHR ''-'' \<or> c = CHR ''_'' \<or> c = CHR ''.'' \<or> c = CHR ''~''))"

definition upperhex :: string where
  "upperhex = ''0123456789ABCDEF''"

definition escape_byte :: "char \<Rightarrow> string" where
  "escape_byte c =
     (if shouldEscape c then
        (if c = CHR '' '' then ''+''
         else [CHR ''%'', upperhex ! ((of_char c :: nat) div 16),
                          upperhex ! ((of_char c :: nat) mod 16)])
      else [c])"

definition QueryEscape :: "string \<Rightarrow> string" where
  "QueryEscape s = concat (map escape_byte s)"

subsection \<open>The heap of parser objects\<close>

text \<open>
  A \<^verbatim>\<open>ResponseParser\<close> is an interface value: a pointer to an object of the provider's
  response type \<open>'p\<close>, which \<^verbatim>\<open>json.Unmarshal\<close> fills in place.  Whether the object
  that is decoded into and the object that is read afterwards are the same one is
  decided by pointers, so the objects live in a store: \<open>objects\<close> gives the state of
  the object at each address, \<open>next_free\<close> is the address the next allocation returns.
\<close>

type_synonym ref = nat

record 'p store =
  objects :: "ref \<Rightarrow> 'p"
  next_free :: ref

definition new_object :: "'p \<Rightarrow> 'p store \<Rightarrow> ref \<times> 'p store" where
  "new_object v st =
     (next_free st,
      st\<lparr>objects := (objects st)(next_free st := v), next_free := Suc (next_free st)\<rparr>)"

subsection \<open>The capabilities and the facade\<close>

text \<open>
  \<^verbatim>\<open>type EndpointBuilder interface { GeocodeUrl(string) string;
  ReverseGeocodeUrl(Location) string }\<close>
\<close>

record EndpointBuilder =
  GeocodeUrl :: "string \<Rightarrow> string"
  ReverseGeocodeUrl :: "Location \<Rightarrow> string"

text \<open>
  \<^verbatim>\<open>type ResponseParser interface { Location() Location; Address() string;
  ResponseObject() ResponseParser }\<close>

  \<open>this\<close> is the pointer the interface value holds.  \<open>Location\<close> and \<open>Address\<close> read
  the object they are called on; \<open>ResponseObject\<close> is given its receiver and the store
  and returns the pointer of the parser it hands out, with the store after the call
  (it may allocate).
\<close>

record 'p ResponseParser =
  this :: ref
  Location :: "'p \<Rightarrow> Location"
  Address :: "'p \<Rightarrow> string"
  ResponseObject :: "ref \<Rightarrow> 'p store \<Rightarrow> ref \<times> 'p store"

text \<open>\<^verbatim>\<open>type Geocoder struct { EndpointBuilder; ResponseParser }\<close>\<close>

record 'p Geocoder =
  EndpointBuilder :: EndpointBuilder
  ResponseParser :: "'p ResponseParser"

subsection \<open>The environment of one call\<close>

text \<open>
  What \<^verbatim>\<open>(&http.Client{}).Do(req)\<close> hands back on success: the status code and the
  body, given as what \<^verbatim>\<open>ioutil.ReadAll(resp.Body)\<close> will return (\<open>None\<close>: the read never
  returns).
\<close>

record http_response =
  StatusCode :: int
  Body :: "(error + string) option"

text \<open>
  \<^item> \<open>http_NewRequest url\<close>: \<^verbatim>\<open>http.NewRequest("GET", url, nil)\<close>, an error or the request
    (identified by its URL);
  \<^item> \<open>http_Do req\<close>: the exchange, an error or a response; \<open>None\<close> when the call never
    returns (the client has no timeout of its own);
  \<^item> \<open>json_Unmarshal data p\<close>: \<^verbatim>\<open>json.Unmarshal(data, obj)\<close> on an object in state \<open>p\<close>:
    the error it returns and the state it leaves the object in;
  \<^item> \<open>worker_elapsed\<close>: the time after the call at which the worker goroutine reaches
    its channel send, if it gets there;
  \<^item> \<open>select_pick_timer\<close>: the choice \<^verbatim>\<open>select\<close> makes when both cases are ready.
\<close>

record 'p env =
  http_NewRequest :: "string \<Rightarrow> error + string"
  http_Do :: "string \<Rightarrow> (error + http_response) option"
  json_Unmarshal :: "string \<Rightarrow> 'p \<Rightarrow> error option \<times> 'p"
  worker_elapsed :: duration
  select_pick_timer :: bool

subsection \<open>Fetch and decode\<close>

text \<open>
  Line 83: \<^verbatim>\<open>json.Unmarshal([]byte(strings.Trim(string(data), " []")), obj)\<close>.  The
  error \<^verbatim>\<open>Unmarshal\<close> returns is dropped; the object behind \<^verbatim>\<open>obj\<close> keeps whatever
  state the call left it in.
\<close>

definition decode_body :: "'p env \<Rightarrow> string \<Rightarrow> ref \<Rightarrow> 'p store \<Rightarrow> 'p store" where
  "decode_body env data obj st =
     st\<lparr>objects := (objects st)
           (obj := snd (json_Unmarshal env (Trim data '' []'') (objects st obj)))\<rparr>"

text \<open>
  \<^verbatim>\<open>func response(url string, obj ResponseParser)\<close>: three nested \<^verbatim>\<open>if ... err == nil\<close>.
  The function has no result; the model returns the store it leaves, or \<open>None\<close> when
  it never returns.
\<close>

definition response :: "'p env \<Rightarrow> string \<Rightarrow> ref \<Rightarrow> 'p store \<Rightarrow> 'p store option" where
  "response env url obj st =
     (case http_NewRequest env url of
        Inl err \<Rightarrow> Some st
      | Inr req \<Rightarrow>
          (case http_Do env req of
             None \<Rightarrow> None
           | Some (Inl err) \<Rightarrow> Some st
           | Some (Inr resp) \<Rightarrow>
               (case Body resp of
                  None \<Rightarrow> None
                | Some (Inl err) \<Rightarrow> Some st
                | Some (Inr data) \<Rightarrow> Some (decode_body env data obj st))))"

subsection \<open>The race between the worker and the timer\<close>

text \<open>
  \<^verbatim>\<open>select { case v := <-ch: ...  case <-time.After(d): ... }\<close> with a worker that
  sends on \<^verbatim>\<open>ch\<close> at time \<open>t\<close> (or never): the case that is ready first is taken, and
  when both are ready at once \<^verbatim>\<open>select\<close> picks either.
\<close>

datatype 'a select_case = FromWorker 'a | FromTimer

definition select_race :: "duration \<Rightarrow> (duration \<times> 'a) option \<Rightarrow> bool \<Rightarrow> 'a select_case" where
  "select_race d w pick_timer =
     (case w of
        None \<Rightarrow> FromTimer
      | Some (t, v) \<Rightarrow>
          if t < d then FromWorker v
          else if d < t then FromTimer
          else if pick_timer then FromTimer else FromWorker v)"

subsection \<open>Geocode and ReverseGeocode\<close>

text \<open>
  The goroutine of \<^verbatim>\<open>Geocode\<close>:
  \<^verbatim>\<open>response(g.GeocodeUrl(url.QueryEscape(address)), g.ResponseObject()); ch <- g.Location()\<close>.
  The arguments are evaluated left to right.  \<open>geocode_request_url\<close> is the URL that
  is fetched.  The worker yields the value it sends and the store it leaves.
\<close>

definition geocode_request_url :: "'p Geocoder \<Rightarrow> string \<Rightarrow> string" where
  "geocode_request_url g address = GeocodeUrl (EndpointBuilder g) (QueryEscape address)"

definition geocode_worker ::
  "'p env \<Rightarrow> 'p Geocoder \<Rightarrow> string \<Rightarrow> 'p store \<Rightarrow> (Location \<times> 'p store) option" where
  "geocode_worker env g address st =
     (let u = geocode_request_url g address;
          (obj, st1) = ResponseObject (ResponseParser g) (this (ResponseParser g)) st
      in case response env u obj st1 of
           None \<Rightarrow> None
         | Some st2 \<Rightarrow>
             Some (Location (ResponseParser g) (objects st2 (this (ResponseParser g))), st2))"

text \<open>\<^verbatim>\<open>func (g Geocoder) Geocode(address string) (Location, error)\<close>\<close>

definition geocode_select ::
  "'p env \<Rightarrow> 'p Geocoder \<Rightarrow> string \<Rightarrow> 'p store \<Rightarrow> Location select_case" where
  "geocode_select env g address st =
     select_race timeoutInSeconds
       (map_option (\<lambda>(v, st'). (worker_elapsed env, v)) (geocode_worker env g address st))
       (select_pick_timer env)"

definition Geocode ::
  "'p env \<Rightarrow> 'p Geocoder \<Rightarrow> string \<Rightarrow> 'p store \<Rightarrow> Location \<times> error option" where
  "Geocode env g address st =
     (case geocode_select env g address st of
        FromWorker location \<Rightarrow> (location, anyError (ALocation location))
      | FromTimer \<Rightarrow> (Location_zero, Some TimeoutError))"

text \<open>
  The goroutine of \<^verbatim>\<open>ReverseGeocode\<close>:
  \<^verbatim>\<open>response(g.ReverseGeocodeUrl(Location{lat, lng}), g.ResponseObject()); ch <- g.Address()\<close>.
\<close>

definition reverse_worker ::
  "'p env \<Rightarrow> 'p Geocoder \<Rightarrow> float64 \<Rightarrow> float64 \<Rightarrow> 'p store \<Rightarrow> (string \<times> 'p store) option" where
  "reverse_worker env g lat lng st =
     (let u = ReverseGeocodeUrl (EndpointBuilder g) \<lparr>Lat = lat, Lng = lng\<rparr>;
          (obj, st1) = ResponseObject (ResponseParser g) (this (ResponseParser g)) st
      in case response env u obj st1 of
           None \<Rightarrow> None
         | Some st2 \<Rightarrow>
             Some (Address (ResponseParser g) (objects st2 (this (ResponseParser g))), st2))"

text \<open>\<^verbatim>\<open>func (g Geocoder) ReverseGeocode(lat, lng float64) (string, error)\<close>\<close>

definition reverse_select ::
  "'p env \<Rightarrow> 'p Geocoder \<Rightarrow> float64 \<Rightarrow> float64 \<Rightarrow> 'p store \<Rightarrow> string select_case" where
  "reverse_select env g lat lng st =
     select_race timeoutInSeconds
       (map_option (\<lambda>(v, st'). (worker_elapsed env, v)) (reverse_worker env g lat lng st))
       (select_pick_timer env)"

definition ReverseGeocode ::
  "'p env \<Rightarrow> 'p Geocoder \<Rightarrow> float64 \<Rightarrow> float64 \<Rightarrow> 'p store \<Rightarrow> string \<times> error option" where
  "ReverseGeocode env g lat lng st =
     (case reverse_select env g lat lng st of
        FromWorker address \<Rightarrow> (address, anyError (AString address))
      | FromTimer \<Rightarrow> ([], Some TimeoutError))"

subsection \<open>The goroutines of one call, step by step\<close>

text \<open>
  \<^verbatim>\<open>ch := make(chan Location)\<close> is an unbuffered channel: a send on it completes
  only together with a receive.  The worker goroutine is first inside
  \<^verbatim>\<open>response(...)\<close> and the method call that follows (\<open>Fetching\<close>), then at its send
  \<^verbatim>\<open>ch <- ...\<close> (\<open>Sending\<close>), and has returned once the send is done (\<open>Exited\<close>).
  The channel of \<^verbatim>\<open>time.After\<close> has a buffer of one, so the timer fires on its
  own.  The caller is in its \<^verbatim>\<open>select\<close> until it takes one of the two cases and
  returns.  Only the caller ever receives from \<^verbatim>\<open>ch\<close>.
\<close>

datatype worker_pc = Fetching | Sending | Exited

datatype 'r caller_pc = Selecting | Returned 'r

record 'r race_state =
  worker :: worker_pc
  timer_fired :: bool
  caller :: "'r caller_pc"

definition race_init :: "'r race_state" where
  "race_init = \<lparr>worker = Fetching, timer_fired = False, caller = Selecting\<rparr>"

text \<open>
  \<open>fetch_returns\<close>: whether \<^verbatim>\<open>response\<close> returns at all; \<open>on_value\<close>: what the caller
  returns from \<^verbatim>\<open>case v := <-ch\<close>; \<open>on_timeout\<close>: what it returns from
  \<^verbatim>\<open>case <-time.After(timeoutInSeconds)\<close>.
\<close>

inductive race_step :: "bool \<Rightarrow> 'r \<Rightarrow> 'r \<Rightarrow> 'r race_state \<Rightarrow> 'r race_state \<Rightarrow> bool"
  for fetch_returns :: bool and on_value :: 'r and on_timeout :: 'r
where
  worker_reaches_send:
    "fetch_returns \<Longrightarrow> worker s = Fetching \<Longrightarrow>
     race_step fetch_returns on_value on_timeout s (s\<lparr>worker := Sending\<rparr>)"
| timer_fires:
    "\<not> timer_fired s \<Longrightarrow>
     race_step fetch_returns on_value on_timeout s (s\<lparr>timer_fired := True\<rparr>)"
| caller_receives_value:
    "caller s = Selecting \<Longrightarrow> worker s = Sending \<Longrightarrow>
     race_step fetch_returns on_value on_timeout s
       (s\<lparr>worker := Exited, caller := Returned on_value\<rparr>)"
| caller_receives_timeout:
    "caller s = Selecting \<Longrightarrow> timer_fired s \<Longrightarrow>
     race_step fetch_returns on_value on_timeout s (s\<lparr>caller := Returned on_timeout\<rparr>)"

text \<open>
  What holds in every state the three parties can reach: the worker has returned
  exactly when the caller took its value.
\<close>

definition race_inv :: "'r \<Rightarrow> 'r \<Rightarrow> 'r race_state \<Rightarrow> bool" where
  "race_inv v t s =
     (case caller s of
        Selecting \<Rightarrow> worker s \<noteq> Exited
      | Returned r \<Rightarrow> (r = v \<and> worker s = Exited) \<or> (r = t \<and> worker s \<noteq> Exited \<and> timer_fired s))"

subsection \<open>JSON texts\<close>












subsection \<open>Bracket depth of a text\<close>

text \<open>
  A scanner used in the proofs about trimmed arrays.  It reads a text byte by byte,
  knows whether it is inside a string literal, and counts the brackets and braces that
  are open.  \<open>scan_end\<close> is the state after the text; \<open>scan_ok f\<close> says that the depth
  never falls below the floor \<open>f\<close> and that every comma outside a string stands at a depth
  above \<open>f\<close>; a text that \<open>scan_neutral f d\<close> holds of can be skipped at depth \<open>d\<close>.
\<close>

datatype scan_mode = Outside | InString | InEscape

definition is_open :: "char \<Rightarrow> bool" where
  "is_open c = (c = CHR ''['' \<or> c = CHR ''{'')"

definition is_close :: "char \<Rightarrow> bool" where
  "is_close c = (c = CHR '']'' \<or> c = CHR ''}'')"

fun scan_end :: "scan_mode \<Rightarrow> int \<Rightarrow> string \<Rightarrow> scan_mode \<times> int" where
  "scan_end m d [] = (m, d)"
| "scan_end Outside d (c # cs) =
     (if c = CHR 0x22 then scan_end InString d cs
      else if is_open c then scan_end Outside (d + 1) cs
      else if is_close c then scan_end Outside (d - 1) cs
      else scan_end Outside d cs)"
| "scan_end InString d (c # cs) =
     (if c = CHR 0x5C then scan_end InEscape d cs
      else if c = CHR 0x22 then scan_end Outside d cs
      else scan_end InString d cs)"
| "scan_end InEscape d (c # cs) = scan_end InString d cs"

fun scan_ok :: "int \<Rightarrow> scan_mode \<Rightarrow> int \<Rightarrow> string \<Rightarrow> bool" where
  "scan_ok f m d [] = True"
| "scan_ok f Outside d (c # cs) =
     (if c = CHR 0x22 then scan_ok f InString d cs
      else if is_open c then scan_ok f Outside (d + 1) cs
      else if is_close c then f < d \<and> scan_ok f Outside (d - 1) cs
      else if c = CHR '','' then f < d \<and> scan_ok f Outside d cs
      else scan_ok f Outside d cs)"
| "scan_ok f InString d (c # cs) =
     (if c = CHR 0x5C then scan_ok f InEscape d cs
      else if c = CHR 0x22 then scan_ok f Outside d cs
      else scan_ok f InString d cs)"
| "scan_ok f InEscape d (c # cs) = scan_ok f InString d cs"


definition scan_neutral :: "int \<Rightarrow> int \<Rightarrow> string \<Rightarrow> bool" where
  "scan_neutral f d x =
     (\<forall>r. scan_end Outside d (x @ r) = scan_end Outside d r \<and>
          scan_ok f Outside d (x @ r) = scan_ok f Outside d r)"

subsection \<open>A fake provider\<close>

text \<open>
  A provider for concrete runs: its response type holds a location and an address, its
  decoder knows two documents and rejects every other input without touching the
  object, its endpoint builder appends its argument to a fixed prefix.  The locations
  are \<^verbatim>\<open>Location{1.0, 2.0}\<close> in binary64.
\<close>

record fake_response =
  fake_loc :: Location
  fake_addr :: string

definition fake_blank :: fake_response where
  "fake_blank = \<lparr>fake_loc = Location_zero, fake_addr = []\<rparr>"

definition one_two :: Location where
  "one_two = \<lparr>Lat = 0x3FF0000000000000, Lng = 0x4000000000000000\<rparr>"

definition fake_Unmarshal :: "string \<Rightarrow> fake_response \<Rightarrow> error option \<times> fake_response" where
  \<open>fake_Unmarshal data p =
     (if data = ''{"lat":1.0,"lng":2.0}'' then (None, p\<lparr>fake_loc := one_two\<rparr>)
      else if data = ''{"address":"Paris"}'' then (None, p\<lparr>fake_addr := ''Paris''\<rparr>)
      else (Some (OtherError ''invalid JSON''), p))\<close>

text \<open>
  The server answers every request after \<open>t\<close> nanoseconds with status \<open>status\<close> and
  body \<open>body\<close>.
\<close>

definition fake_env :: "int \<Rightarrow> string \<Rightarrow> duration \<Rightarrow> fake_response env" where
  "fake_env status body t =
     \<lparr>http_NewRequest = Inr,
      http_Do = (\<lambda>req. Some (Inr \<lparr>StatusCode = status, Body = Some (Inr body)\<rparr>)),
      json_Unmarshal = fake_Unmarshal,
      worker_elapsed = t,
      select_pick_timer = False\<rparr>"

definition fake_builder :: EndpointBuilder where
  "fake_builder =
     \<lparr>GeocodeUrl = (\<lambda>a. ''http://fake/geocode?q='' @ a),
      ReverseGeocodeUrl = (\<lambda>l. ''http://fake/reverse'')\<rparr>"

text \<open>
  Two parsers at address 0: the \<^verbatim>\<open>ResponseObject\<close> of the first returns its receiver,
  the \<^verbatim>\<open>ResponseObject\<close> of the second allocates a blank object for each request.
\<close>

definition shared_parser :: "fake_response ResponseParser" where
  "shared_parser =
     \<lparr>this = 0, Location = fake_loc, Address = fake_addr,
      ResponseObject = (\<lambda>r st. (r, st))\<rparr>"

definition fresh_parser :: "fake_response ResponseParser" where
  "fresh_parser =
     \<lparr>this = 0, Location = fake_loc, Address = fake_addr,
      ResponseObject = (\<lambda>r st. new_object fake_blank st)\<rparr>"

definition shared_geocoder :: "fake_response Geocoder" where
  "shared_geocoder = \<lparr>EndpointBuilder = fake_builder, ResponseParser = shared_parser\<rparr>"

definition fresh_geocoder :: "fake_response Geocoder" where
  "fresh_geocoder = \<lparr>EndpointBuilder = fake_builder, ResponseParser = fresh_parser\<rparr>"

definition fake_store :: "fake_response store" where
  "fake_store = \<lparr>objects = (\<lambda>r. fake_blank), next_free = 1\<rparr>"

section \<open>Properties\<close>

subsection \<open>Facts about the float comparison\<close>

lemma f64_zero_not_NaN: "\<not> f64_isNaN 0"
  by (simp add: f64_isNaN_def)

lemma f64_isZero_not_NaN: "f64_isZero x \<Longrightarrow> \<not> f64_isNaN x"
  by (simp add: f64_isNaN_def f64_isZero_def)

lemma f64_eq_zero_iff: "f64_eq x 0 \<longleftrightarrow> f64_isZero x"
  by (auto simp: f64_eq_def f64_zero_not_NaN f64_isZero_not_NaN) (simp_all add: f64_isZero_def)

lemma Location_eq_zero_iff:
  "Location_eq v Location_zero \<longleftrightarrow> f64_isZero (Lat v) \<and> f64_isZero (Lng v)"
  by (simp add: Location_eq_def Location_zero_def f64_eq_zero_iff)


subsection \<open>Evaluation rules for concrete runs\<close>

lemmas fake_defs = fake_env_def fake_builder_def shared_parser_def fresh_parser_def
  shared_geocoder_def fresh_geocoder_def fake_store_def fake_blank_def fake_Unmarshal_def
  new_object_def

lemmas run_defs = Geocode_def ReverseGeocode_def geocode_select_def reverse_select_def
  geocode_worker_def reverse_worker_def geocode_request_url_def response_def decode_body_def
  select_race_def timeoutInSeconds_def Second_def Trim_def TrimLeft_def TrimRight_def
  QueryEscape_def escape_byte_def shouldEscape_def upperhex_def

subsection \<open>What the caller can get back\<close>

lemma Geocode_FromWorker:
  "geocode_select env g a st = FromWorker v \<Longrightarrow> Geocode env g a st = (v, anyError (ALocation v))"
  by (simp add: Geocode_def)

lemma Geocode_FromTimer:
  "geocode_select env g a st = FromTimer \<Longrightarrow> Geocode env g a st = (Location_zero, Some TimeoutError)"
  by (simp add: Geocode_def)

lemma ReverseGeocode_FromWorker:
  "reverse_select env g lat lng st = FromWorker v \<Longrightarrow>
   ReverseGeocode env g lat lng st = (v, anyError (AString v))"
  by (simp add: ReverseGeocode_def)

lemma ReverseGeocode_FromTimer:
  "reverse_select env g lat lng st = FromTimer \<Longrightarrow>
   ReverseGeocode env g lat lng st = ([], Some TimeoutError)"
  by (simp add: ReverseGeocode_def)

lemma geocode_select_value:
  "geocode_select env g a st = FromWorker v \<Longrightarrow>
   \<exists>st'. geocode_worker env g a st = Some (v, st')"
  by (auto simp: geocode_select_def select_race_def split: option.splits if_splits)

lemma reverse_select_value:
  "reverse_select env g lat lng st = FromWorker v \<Longrightarrow>
   \<exists>st'. reverse_worker env g lat lng st = Some (v, st')"
  by (auto simp: reverse_select_def select_race_def split: option.splits if_splits)

text \<open>The value the worker sends is read from the parser the facade embeds.\<close>

lemma geocode_worker_value:
  "geocode_worker env g a st = Some (v, st') \<Longrightarrow>
   v = Location (ResponseParser g) (objects st' (this (ResponseParser g)))"
  by (auto simp: geocode_worker_def Let_def split: prod.splits option.splits)

lemma reverse_worker_value:
  "reverse_worker env g lat lng st = Some (v, st') \<Longrightarrow>
   v = Address (ResponseParser g) (objects st' (this (ResponseParser g)))"
  by (auto simp: reverse_worker_def Let_def split: prod.splits option.splits)

lemma Geocode_error_cases:
  "snd (Geocode env g a st) = None \<or> snd (Geocode env g a st) = Some TimeoutError
     \<or> snd (Geocode env g a st) = Some NoResultError"
  by (simp add: Geocode_def split: select_case.splits)

lemma ReverseGeocode_error_cases:
  "snd (ReverseGeocode env g lat lng st) = None
     \<or> snd (ReverseGeocode env g lat lng st) = Some TimeoutError
     \<or> snd (ReverseGeocode env g lat lng st) = Some NoResultError"
  by (simp add: ReverseGeocode_def split: select_case.splits)

text \<open>
  C6.  Whatever the transport, the decoder, the provider and the scheduler do, the
  error that \<^verbatim>\<open>Geocode\<close> or \<^verbatim>\<open>ReverseGeocode\<close> returns is \<^verbatim>\<open>nil\<close>, \<^verbatim>\<open>TimeoutError\<close> or
  \<^verbatim>\<open>NoResultError\<close>: no error of the standard library (an \<open>OtherError\<close>) reaches the
  caller.
\<close>

theorem only_three_errors:
  "snd (Geocode env g a st) \<in> {None, Some TimeoutError, Some NoResultError} \<and>
   snd (ReverseGeocode env g lat lng st) \<in> {None, Some TimeoutError, Some NoResultError}"
  using Geocode_error_cases [of env g a st] ReverseGeocode_error_cases [of env g lat lng st]
  by auto

subsection \<open>The classifier\<close>

lemma anyError_zero_Location:
  "Location_eq v Location_zero \<Longrightarrow> anyError (ALocation v) = Some NoResultError"
  by (simp add: Location_eq_def Location_zero_def)

text \<open>
  C4.  For a \<^verbatim>\<open>Location\<close> the classifier returns \<^verbatim>\<open>NoResultError\<close> exactly when both
  coordinates compare equal to zero, for a string exactly when it is empty, and \<^verbatim>\<open>nil\<close>
  in every other case.  So a \<^verbatim>\<open>Geocode\<close> call that does not time out, on a parser whose
  \<^verbatim>\<open>Location()\<close> is always zero, returns a zero location with \<^verbatim>\<open>NoResultError\<close>; when
  the parser's location is the zero value \<^verbatim>\<open>Location{}\<close> itself, the result is
  \<^verbatim>\<open>(Location{}, NoResultError)\<close>.
\<close>

theorem anyError_classifies:
  "(anyError (ALocation v) = Some NoResultError \<longleftrightarrow> f64_eq (Lat v) 0 \<and> f64_eq (Lng v) 0) \<and>
   (anyError (ALocation v) \<noteq> Some NoResultError \<longrightarrow> anyError (ALocation v) = None) \<and>
   (anyError (AString s) = Some NoResultError \<longleftrightarrow> s = []) \<and>
   (anyError (AString s) \<noteq> Some NoResultError \<longrightarrow> anyError (AString s) = None) \<and>
   ((\<forall>p. Location_eq (Location (ResponseParser g) p) Location_zero) \<and>
      geocode_select env g a st \<noteq> FromTimer \<longrightarrow>
        Location_eq (fst (Geocode env g a st)) Location_zero \<and>
        snd (Geocode env g a st) = Some NoResultError) \<and>
   ((\<forall>p. Location (ResponseParser g) p = Location_zero) \<and>
      geocode_select env g a st \<noteq> FromTimer \<longrightarrow>
        Geocode env g a st = (Location_zero, Some NoResultError))"
proof -
  have loc: "Location_eq (fst (Geocode env g a st)) Location_zero \<and>
        snd (Geocode env g a st) = Some NoResultError"
    if z: "\<forall>p. Location_eq (Location (ResponseParser g) p) Location_zero"
      and nt: "geocode_select env g a st \<noteq> FromTimer"
  proof -
    from nt obtain w where w: "geocode_select env g a st = FromWorker w"
      by (cases "geocode_select env g a st") auto
    then obtain st' where "geocode_worker env g a st = Some (w, st')"
      using geocode_select_value by blast
    then have wz: "Location_eq w Location_zero"
      using geocode_worker_value z by metis
    then have "anyError (ALocation w) = Some NoResultError"
      by (rule anyError_zero_Location)
    with w wz show ?thesis
      by (simp add: Geocode_FromWorker del: anyError.simps)
  qed
  have loc': "Geocode env g a st = (Location_zero, Some NoResultError)"
    if z: "\<forall>p. Location (ResponseParser g) p = Location_zero"
      and nt: "geocode_select env g a st \<noteq> FromTimer"
  proof -
    from nt obtain w where w: "geocode_select env g a st = FromWorker w"
      by (cases "geocode_select env g a st") auto
    then obtain st' where "geocode_worker env g a st = Some (w, st')"
      using geocode_select_value by blast
    then have "w = Location_zero"
      using geocode_worker_value z by metis
    then show ?thesis
      using w by (simp add: Geocode_FromWorker Location_zero_def f64_eq_def f64_isNaN_def)
  qed
  show ?thesis using loc loc' by simp
qed

theorem anyError_classifies_witness:
  "(\<forall>p. Location (ResponseParser
           (shared_geocoder\<lparr>ResponseParser := shared_parser\<lparr>Location := \<lambda>p. Location_zero\<rparr>\<rparr>)) p
        = Location_zero) \<and>
   geocode_select (fake_env 200 ''{}'' 5)
     (shared_geocoder\<lparr>ResponseParser := shared_parser\<lparr>Location := \<lambda>p. Location_zero\<rparr>\<rparr>)
     ''Paris'' fake_store \<noteq> FromTimer \<and>
   Geocode (fake_env 200 ''{}'' 5)
     (shared_geocoder\<lparr>ResponseParser := shared_parser\<lparr>Location := \<lambda>p. Location_zero\<rparr>\<rparr>)
     ''Paris'' fake_store = (Location_zero, Some NoResultError) \<and>
   anyError (ALocation one_two) \<noteq> Some NoResultError \<and> anyError (ALocation one_two) = None \<and>
   anyError (AString ''Paris'') \<noteq> Some NoResultError \<and> anyError (AString ''Paris'') = None"
proof -
  let ?g = "shared_geocoder\<lparr>ResponseParser := shared_parser\<lparr>Location := \<lambda>p. Location_zero\<rparr>\<rparr>"
  have h1: "\<forall>p. Location (ResponseParser ?g) p = Location_zero" by simp
  have h2: "geocode_select (fake_env 200 ''{}'' 5) ?g ''Paris'' fake_store \<noteq> FromTimer"
    by (simp add: run_defs fake_defs)
  have h3: "anyError (ALocation one_two) \<noteq> Some NoResultError"
    by (simp add: one_two_def f64_eq_def f64_isZero_def)
  have h4: "anyError (AString ''Paris'') \<noteq> Some NoResultError" by simp
  show ?thesis
    using h1 h2 h3 h4
      anyError_classifies [of one_two "''Paris''" ?g "fake_env 200 ''{}'' 5" "''Paris''" fake_store]
    by blast
qed

subsection \<open>When the timer wins\<close>

lemma geocode_select_FromTimer_iff:
  "geocode_select env g a st = FromTimer \<longleftrightarrow>
     geocode_worker env g a st = None \<or> timeoutInSeconds < worker_elapsed env \<or>
     (worker_elapsed env = timeoutInSeconds \<and> select_pick_timer env)"
  by (auto simp: geocode_select_def select_race_def split: option.splits)

lemma reverse_select_FromTimer_iff:
  "reverse_select env g lat lng st = FromTimer \<longleftrightarrow>
     reverse_worker env g lat lng st = None \<or> timeoutInSeconds < worker_elapsed env \<or>
     (worker_elapsed env = timeoutInSeconds \<and> select_pick_timer env)"
  by (auto simp: reverse_select_def select_race_def split: option.splits)

subsection \<open>The timeout\<close>

text \<open>
  C5.  The timeout is eight seconds, \<open>8 * 10\<^sup>9\<close> nanoseconds, and both operations race
  against this one duration: the timer case is taken exactly when the worker never
  reaches its send, or reaches it after more than \<open>timeoutInSeconds\<close>, or reaches it at
  that very moment and \<^verbatim>\<open>select\<close> picks the timer.  When the timer case is taken,
  \<^verbatim>\<open>Geocode\<close> returns \<^verbatim>\<open>(Location{}, TimeoutError)\<close> and \<^verbatim>\<open>ReverseGeocode\<close> returns
  \<^verbatim>\<open>("", TimeoutError)\<close>.
\<close>

theorem timer_first_gives_TimeoutError:
  "timeoutInSeconds = 8 * 1000000000 \<and>
   (geocode_select env g a st = FromTimer \<longleftrightarrow>
      geocode_worker env g a st = None \<or> timeoutInSeconds < worker_elapsed env \<or>
      (worker_elapsed env = timeoutInSeconds \<and> select_pick_timer env)) \<and>
   (reverse_select env g lat lng st = FromTimer \<longleftrightarrow>
      reverse_worker env g lat lng st = None \<or> timeoutInSeconds < worker_elapsed env \<or>
      (worker_elapsed env = timeoutInSeconds \<and> select_pick_timer env)) \<and>
   (geocode_select env g a st = FromTimer \<longrightarrow>
      Geocode env g a st = (Location_zero, Some TimeoutError)) \<and>
   (reverse_select env g lat lng st = FromTimer \<longrightarrow>
      ReverseGeocode env g lat lng st = ([], Some TimeoutError))"
  using geocode_select_FromTimer_iff [of env g a st]
    reverse_select_FromTimer_iff [of env g lat lng st]
  by (simp add: Geocode_FromTimer ReverseGeocode_FromTimer timeoutInSeconds_def Second_def)

theorem timer_first_gives_TimeoutError_witness:
  \<open>geocode_select (fake_env 200 ''{"lat":1.0,"lng":2.0}'' 9000000000) shared_geocoder ''Paris''
      fake_store = FromTimer \<and>
   Geocode (fake_env 200 ''{"lat":1.0,"lng":2.0}'' 9000000000) shared_geocoder ''Paris''
      fake_store = (Location_zero, Some TimeoutError) \<and>
   reverse_select (fake_env 200 ''{"lat":1.0,"lng":2.0}'' 9000000000) shared_geocoder 0 0
      fake_store = FromTimer \<and>
   ReverseGeocode (fake_env 200 ''{"lat":1.0,"lng":2.0}'' 9000000000) shared_geocoder 0 0
      fake_store = ([], Some TimeoutError)\<close>
proof -
  let ?e = \<open>fake_env 200 ''{"lat":1.0,"lng":2.0}'' 9000000000\<close>
  have h: "timeoutInSeconds < worker_elapsed ?e"
    by (simp add: fake_env_def timeoutInSeconds_def Second_def)
  show ?thesis
    using h timer_first_gives_TimeoutError [of ?e shared_geocoder "''Paris''" fake_store 0 0]
    by blast
qed

subsection \<open>Fetch and decode: what it leaves behind\<close>

lemma decode_body_objects:
  "objects (decode_body env data obj st) =
     (objects st)(obj := snd (json_Unmarshal env (Trim data '' []'') (objects st obj)))"
  by (simp add: decode_body_def)

lemma decode_body_next_free: "next_free (decode_body env data obj st) = next_free st"
  by (simp add: decode_body_def)

lemma response_cases:
  "response env url obj st = None \<or> response env url obj st = Some st \<or>
   (\<exists>data. response env url obj st = Some (decode_body env data obj st))"
  by (auto simp: response_def split: sum.splits option.splits)

text \<open>
  C8.  \<^verbatim>\<open>response\<close> hands no error to its caller.  When building the request fails, when
  the exchange fails, or when reading the body fails, it returns with the store
  untouched.  When a body was read, whatever the status code, it returns with the store
  that the decode step leaves, and the error of \<^verbatim>\<open>json.Unmarshal\<close> is dropped.  The decode
  step changes one thing only: the object behind \<^verbatim>\<open>obj\<close> is in the state
  \<^verbatim>\<open>json.Unmarshal\<close> left it in; every other object and the allocator are as before.
\<close>

theorem response_swallows_failures:
  "(\<forall>err. http_NewRequest env url = Inl err \<longrightarrow> response env url obj st = Some st) \<and>
   (\<forall>req err. http_NewRequest env url = Inr req \<and> http_Do env req = Some (Inl err) \<longrightarrow>
      response env url obj st = Some st) \<and>
   (\<forall>req resp err. http_NewRequest env url = Inr req \<and> http_Do env req = Some (Inr resp) \<and>
      Body resp = Some (Inl err) \<longrightarrow> response env url obj st = Some st) \<and>
   (\<forall>req resp data. http_NewRequest env url = Inr req \<and> http_Do env req = Some (Inr resp) \<and>
      Body resp = Some (Inr data) \<longrightarrow>
      response env url obj st = Some (decode_body env data obj st)) \<and>
   (response env url obj st = None \<or> response env url obj st = Some st \<or>
      (\<exists>data. response env url obj st = Some (decode_body env data obj st))) \<and>
   objects (decode_body env data obj st) obj =
      snd (json_Unmarshal env (Trim data '' []'') (objects st obj)) \<and>
   (\<forall>r. r \<noteq> obj \<longrightarrow> objects (decode_body env data obj st) r = objects st r) \<and>
   next_free (decode_body env data obj st) = next_free st"
  using response_cases [of env url obj st]
  by (simp add: response_def decode_body_objects decode_body_next_free)


theorem response_swallows_failures_witness:
  "http_NewRequest ((fake_env 200 ''{}'' 5)\<lparr>http_NewRequest := \<lambda>u. Inl (OtherError ''parse'')\<rparr>)
      ''http://fake'' = Inl (OtherError ''parse'') \<and>
   response ((fake_env 200 ''{}'' 5)\<lparr>http_NewRequest := \<lambda>u. Inl (OtherError ''parse'')\<rparr>)
      ''http://fake'' 0 fake_store = Some fake_store \<and>
   http_Do ((fake_env 200 ''{}'' 5)\<lparr>http_Do := \<lambda>r. Some (Inl (OtherError ''dial''))\<rparr>)
      ''http://fake'' = Some (Inl (OtherError ''dial'')) \<and>
   response ((fake_env 200 ''{}'' 5)\<lparr>http_Do := \<lambda>r. Some (Inl (OtherError ''dial''))\<rparr>)
      ''http://fake'' 0 fake_store = Some fake_store \<and>
   response ((fake_env 200 ''{}'' 5)\<lparr>http_Do := \<lambda>r. Some (Inr
        \<lparr>StatusCode = 200, Body = Some (Inl (OtherError ''unexpected EOF''))\<rparr>)\<rparr>)
      ''http://fake'' 0 fake_store = Some fake_store \<and>
   response (fake_env 500 ''oops'' 5) ''http://fake'' 0 fake_store
      = Some (decode_body (fake_env 500 ''oops'' 5) ''oops'' 0 fake_store) \<and>
   fst (json_Unmarshal (fake_env 500 ''oops'' 5) (Trim ''oops'' '' []'') (objects fake_store 0))
      = Some (OtherError ''invalid JSON'') \<and>
   objects (decode_body (fake_env 500 ''oops'' 5) ''oops'' 0 fake_store) 0 = fake_blank \<and>
   (1::nat) \<noteq> 0 \<and>
   objects (decode_body (fake_env 500 ''oops'' 5) ''oops'' 0 fake_store) 1 = objects fake_store 1"
proof -
  let ?e = "fake_env 200 ''{}'' 5"
  let ?e1 = "?e\<lparr>http_NewRequest := \<lambda>u. Inl (OtherError ''parse'')\<rparr>"
  let ?e2 = "?e\<lparr>http_Do := \<lambda>r. Some (Inl (OtherError ''dial''))\<rparr>"
  let ?e3 = "?e\<lparr>http_Do := \<lambda>r. Some (Inr
        \<lparr>StatusCode = 200, Body = Some (Inl (OtherError ''unexpected EOF''))\<rparr>)\<rparr>"
  let ?e4 = "fake_env 500 ''oops'' 5"
  have a1: "http_NewRequest ?e1 ''http://fake'' = Inl (OtherError ''parse'')" by simp
  have a2: "http_NewRequest ?e2 ''http://fake'' = Inr ''http://fake'' \<and>
            http_Do ?e2 ''http://fake'' = Some (Inl (OtherError ''dial''))"
    by (simp add: fake_env_def)
  have a3: "http_NewRequest ?e3 ''http://fake'' = Inr ''http://fake'' \<and>
            http_Do ?e3 ''http://fake'' = Some (Inr
              \<lparr>StatusCode = 200, Body = Some (Inl (OtherError ''unexpected EOF''))\<rparr>) \<and>
            Body \<lparr>StatusCode = 200, Body = Some (Inl (OtherError ''unexpected EOF''))\<rparr>
              = Some (Inl (OtherError ''unexpected EOF''))"
    by (simp add: fake_env_def)
  have a4: "http_NewRequest ?e4 ''http://fake'' = Inr ''http://fake'' \<and>
            http_Do ?e4 ''http://fake'' = Some (Inr \<lparr>StatusCode = 500, Body = Some (Inr ''oops'')\<rparr>) \<and>
            Body \<lparr>StatusCode = 500, Body = Some (Inr ''oops'')\<rparr> = Some (Inr ''oops'')"
    by (simp add: fake_env_def)
  have u: "json_Unmarshal ?e4 (Trim ''oops'' '' []'') (objects fake_store 0)
             = (Some (OtherError ''invalid JSON''), fake_blank)"
    by (simp add: fake_defs run_defs)
  have n: "(1::nat) \<noteq> 0" by simp
  note t1 = response_swallows_failures [of ?e1 "''http://fake''" 0 fake_store "''oops''"]
  note t2 = response_swallows_failures [of ?e2 "''http://fake''" 0 fake_store "''oops''"]
  note t3 = response_swallows_failures [of ?e3 "''http://fake''" 0 fake_store "''oops''"]
  note t4 = response_swallows_failures [of ?e4 "''http://fake''" 0 fake_store "''oops''"]
  have r1: "response ?e1 ''http://fake'' 0 fake_store = Some fake_store"
    using t1 a1 by blast
  have r2: "response ?e2 ''http://fake'' 0 fake_store = Some fake_store"
    using t2 a2 by blast
  have r3: "response ?e3 ''http://fake'' 0 fake_store = Some fake_store"
    using t3 a3 by blast
  have r4: "response ?e4 ''http://fake'' 0 fake_store = Some (decode_body ?e4 ''oops'' 0 fake_store)"
    using t4 a4 by blast
  have o0: "objects (decode_body ?e4 ''oops'' 0 fake_store) 0 = fake_blank"
    using t4 u by simp
  have o1: "objects (decode_body ?e4 ''oops'' 0 fake_store) 1 = objects fake_store 1"
    using t4 n by blast
  show ?thesis
    using a1 a2 r1 r2 r3 r4 u o0 o1 by simp
qed

subsection \<open>Trimming\<close>

lemma TrimLeft_bracket: "TrimLeft (CHR ''['' # s) '' []'' = TrimLeft s '' []''"
  by (simp add: TrimLeft_def)

lemma TrimRight_bracket: "TrimRight (s @ '']'') '' []'' = TrimRight s '' []''"
  by (simp add: TrimRight_def)

lemma TrimRight_Cons_in:
  assumes c: "c \<in> set cutset"
  shows "TrimLeft (TrimRight (c # s) cutset) cutset = TrimLeft (TrimRight s cutset) cutset"
proof (cases "\<forall>x \<in> set s. x \<in> set cutset")
  case True
  have e1: "dropWhile (\<lambda>x. x \<in> set cutset) (rev s) = []"
    using True by simp
  have e2: "dropWhile (\<lambda>x. x \<in> set cutset) (rev (c # s)) = []"
    using True c by simp
  show ?thesis
    unfolding TrimRight_def TrimLeft_def e1 e2 ..
next
  case False
  then have ne: "dropWhile (\<lambda>x. x \<in> set cutset) (rev s) \<noteq> []" by auto
  then have "dropWhile (\<lambda>x. x \<in> set cutset) (rev s @ [c])
             = dropWhile (\<lambda>x. x \<in> set cutset) (rev s) @ [c]"
    by (metis dropWhile_append1 dropWhile_eq_Nil_conv)
  then have "TrimRight (c # s) cutset = c # TrimRight s cutset"
    by (simp add: TrimRight_def)
  with c show ?thesis by (simp add: TrimLeft_def)
qed

lemma Trim_wrapped: "Trim (''['' @ P @ '']'') '' []'' = Trim P '' []''"
proof -
  have "Trim (''['' @ P @ '']'') '' []'' = TrimLeft (TrimRight (CHR ''['' # P) '' []'') '' []''"
    using TrimRight_bracket [of "CHR ''['' # P"] by (simp add: Trim_def)
  also have "\<dots> = TrimLeft (TrimRight P '' []'') '' []''"
    by (rule TrimRight_Cons_in) simp
  finally show ?thesis by (simp add: Trim_def)
qed

text \<open>
  C7.  For every payload \<open>P\<close> (so for every JSON object), the body \<^verbatim>\<open>[P]\<close> is trimmed to
  the same text as the body \<open>P\<close>; the decode step, and \<^verbatim>\<open>response\<close> on a server that
  answers with the one or the other body, leave the same store.
\<close>

theorem array_wrapped_decodes_alike:
  "Trim (''['' @ P @ '']'') '' []'' = Trim P '' []'' \<and>
   decode_body env (''['' @ P @ '']'') obj st = decode_body env P obj st \<and>
   response (env\<lparr>http_Do := \<lambda>req. Some (Inr \<lparr>StatusCode = c, Body = Some (Inr (''['' @ P @ '']''))\<rparr>)\<rparr>)
       url obj st
     = response (env\<lparr>http_Do := \<lambda>req. Some (Inr \<lparr>StatusCode = c, Body = Some (Inr P)\<rparr>)\<rparr>)
       url obj st"
  using Trim_wrapped [of P]
  by (simp add: decode_body_def response_def split: sum.splits)

subsection \<open>The status code\<close>

lemma response_status_irrelevant:
  "response (env\<lparr>http_Do := \<lambda>req. map_option (map_sum id (StatusCode_update f)) (http_Do env req)\<rparr>)
     url obj st = response env url obj st"
  by (auto simp: response_def decode_body_def split: sum.splits option.splits)

lemma geocode_worker_status_irrelevant:
  "geocode_worker (env\<lparr>http_Do := \<lambda>req. map_option (map_sum id (StatusCode_update f)) (http_Do env req)\<rparr>)
     g a st = geocode_worker env g a st"
  using response_status_irrelevant [where env=env and f=f]
  by (simp add: geocode_worker_def Let_def split: prod.splits)

lemma reverse_worker_status_irrelevant:
  "reverse_worker (env\<lparr>http_Do := \<lambda>req. map_option (map_sum id (StatusCode_update f)) (http_Do env req)\<rparr>)
     g lat lng st = reverse_worker env g lat lng st"
  using response_status_irrelevant [where env=env and f=f]
  by (simp add: reverse_worker_def Let_def split: prod.splits)

text \<open>
  C10.  \<^verbatim>\<open>response\<close> never looks at the status code.  Whenever the exchange yields a
  response whose body can be read, the body is trimmed and decoded into the target,
  whatever \<open>StatusCode\<close> says; and rewriting every status code of the environment by any
  function \<open>f\<close> changes neither what \<^verbatim>\<open>response\<close> leaves nor what \<^verbatim>\<open>Geocode\<close> and
  \<^verbatim>\<open>ReverseGeocode\<close> return.  So a status 500 with a body the decoder accepts gives the
  result of a success, as the concrete run below shows.
\<close>

theorem status_code_never_inspected:
  "(http_NewRequest env url = Inr req \<and> http_Do env req = Some (Inr resp) \<and>
      Body resp = Some (Inr data) \<longrightarrow>
      response env url obj st = Some (decode_body env data obj st)) \<and>
   response (env\<lparr>http_Do := \<lambda>req. map_option (map_sum id (StatusCode_update f)) (http_Do env req)\<rparr>)
      url obj st = response env url obj st \<and>
   Geocode (env\<lparr>http_Do := \<lambda>req. map_option (map_sum id (StatusCode_update f)) (http_Do env req)\<rparr>)
      g a st = Geocode env g a st \<and>
   ReverseGeocode (env\<lparr>http_Do := \<lambda>req. map_option (map_sum id (StatusCode_update f)) (http_Do env req)\<rparr>)
      g lat lng st = ReverseGeocode env g lat lng st"
proof -
  have "response env url obj st = Some (decode_body env data obj st)"
    if "http_NewRequest env url = Inr req" "http_Do env req = Some (Inr resp)"
       "Body resp = Some (Inr data)"
    using that by (simp add: response_def)
  moreover have "Geocode (env\<lparr>http_Do := \<lambda>req. map_option (map_sum id (StatusCode_update f)) (http_Do env req)\<rparr>)
      g a st = Geocode env g a st"
    using geocode_worker_status_irrelevant [where env=env and f=f and g=g and a=a and st=st]
    by (simp add: Geocode_def geocode_select_def)
  moreover have "ReverseGeocode (env\<lparr>http_Do := \<lambda>req. map_option (map_sum id (StatusCode_update f)) (http_Do env req)\<rparr>)
      g lat lng st = ReverseGeocode env g lat lng st"
    using reverse_worker_status_irrelevant [where env=env and f=f and g=g and lat=lat and lng=lng and st=st]
    by (simp add: ReverseGeocode_def reverse_select_def)
  ultimately show ?thesis
    using response_status_irrelevant [where env=env and f=f and url=url and obj=obj and st=st] by blast
qed

theorem status_code_never_inspected_witness:
  \<open>http_NewRequest (fake_env 500 ''{"lat":1.0,"lng":2.0}'' 5) ''http://fake'' = Inr ''http://fake'' \<and>
   http_Do (fake_env 500 ''{"lat":1.0,"lng":2.0}'' 5) ''http://fake''
     = Some (Inr \<lparr>StatusCode = 500, Body = Some (Inr ''{"lat":1.0,"lng":2.0}'')\<rparr>) \<and>
   response (fake_env 500 ''{"lat":1.0,"lng":2.0}'' 5) ''http://fake'' 0 fake_store
     = Some (decode_body (fake_env 500 ''{"lat":1.0,"lng":2.0}'' 5) ''{"lat":1.0,"lng":2.0}'' 0 fake_store) \<and>
   fake_loc (objects (decode_body (fake_env 500 ''{"lat":1.0,"lng":2.0}'' 5)
      ''{"lat":1.0,"lng":2.0}'' 0 fake_store) 0) = one_two \<and>
   Geocode (fake_env 500 ''{"lat":1.0,"lng":2.0}'' 5) shared_geocoder ''Paris'' fake_store
     = (one_two, None)\<close>
proof -
  let ?b = \<open>''{"lat":1.0,"lng":2.0}''\<close>
  let ?e = "fake_env 500 ?b 5"
  have a: "http_NewRequest ?e ''http://fake'' = Inr ''http://fake'' \<and>
           http_Do ?e ''http://fake'' = Some (Inr \<lparr>StatusCode = 500, Body = Some (Inr ?b)\<rparr>) \<and>
           Body \<lparr>StatusCode = 500, Body = Some (Inr ?b)\<rparr> = Some (Inr ?b)"
    by (simp add: fake_env_def)
  have r: "response ?e ''http://fake'' 0 fake_store = Some (decode_body ?e ?b 0 fake_store)"
    using a status_code_never_inspected [where env="?e" and url="''http://fake''"
        and req="''http://fake''" and resp="\<lparr>StatusCode = 500, Body = Some (Inr ?b)\<rparr>"
        and data="?b" and obj=0 and st=fake_store]
    by blast
  have d: "fake_loc (objects (decode_body ?e ?b 0 fake_store) 0) = one_two"
    by (simp add: fake_defs run_defs)
  have g: "Geocode ?e shared_geocoder ''Paris'' fake_store = (one_two, None)"
    by (simp add: fake_defs run_defs one_two_def f64_eq_def f64_isZero_def f64_isNaN_def)
  show ?thesis using a r d g by simp
qed

subsection \<open>The address the endpoint builder is given\<close>





lemma shouldEscape_space: "shouldEscape (CHR '' '')"
  by (simp add: shouldEscape_def)





subsection \<open>Which parser object the result is read from\<close>

lemma geocode_worker_other_object:
  assumes ro: "ResponseObject (ResponseParser g) (this (ResponseParser g)) st = (obj, st1)"
    and ne: "obj \<noteq> this (ResponseParser g)"
    and w: "geocode_worker env g a st = Some (v, st2)"
  shows "v = Location (ResponseParser g) (objects st1 (this (ResponseParser g)))"
proof -
  from w ro have r: "response env (geocode_request_url g a) obj st1 = Some st2"
    and v: "v = Location (ResponseParser g) (objects st2 (this (ResponseParser g)))"
    by (auto simp: geocode_worker_def Let_def split: option.splits)
  from r have "st2 = st1 \<or> (\<exists>data. st2 = decode_body env data obj st1)"
    using response_cases [of env "geocode_request_url g a" obj st1] by auto
  then have "objects st2 (this (ResponseParser g)) = objects st1 (this (ResponseParser g))"
    using ne by (auto simp: decode_body_objects)
  with v show ?thesis by simp
qed

text \<open>
  C1.  A run of the code on a parser whose \<^verbatim>\<open>ResponseObject\<close> allocates a blank object
  for each request.  The server answers with status 200 and a body that decodes to
  \<^verbatim>\<open>Location{1.0, 2.0}\<close>, after 0.1 seconds.  The fresh object (address 1) is decoded
  into and holds that location; the worker sends the location of the embedded parser
  (address 0), which nothing wrote to; \<^verbatim>\<open>Geocode\<close> returns
  \<^verbatim>\<open>(Location{}, NoResultError)\<close>.  The same run on the parser whose \<^verbatim>\<open>ResponseObject\<close>
  returns its receiver returns \<^verbatim>\<open>(Location{1.0, 2.0}, nil)\<close>.
\<close>

theorem Geocode_reads_embedded_parser:
  \<open>ResponseObject (ResponseParser fresh_geocoder) (this (ResponseParser fresh_geocoder)) fake_store
     = (1, fake_store\<lparr>objects := (objects fake_store)(1 := fake_blank), next_free := 2\<rparr>) \<and>
   map_option (\<lambda>(v, st'). (v, fake_loc (objects st' 0), fake_loc (objects st' 1)))
     (geocode_worker (fake_env 200 ''{"lat":1.0,"lng":2.0}'' 100000000) fresh_geocoder ''Paris'' fake_store)
     = Some (Location_zero, Location_zero, one_two) \<and>
   Geocode (fake_env 200 ''{"lat":1.0,"lng":2.0}'' 100000000) fresh_geocoder ''Paris'' fake_store
     = (Location_zero, Some NoResultError) \<and>
   Geocode (fake_env 200 ''{"lat":1.0,"lng":2.0}'' 100000000) shared_geocoder ''Paris'' fake_store
     = (one_two, None)\<close>
  by (simp add: fake_defs run_defs one_two_def Location_zero_def f64_eq_def f64_isZero_def
      f64_isNaN_def)

subsection \<open>The worker after a timeout\<close>

lemma race_step_after_return:
  "race_step fr v t s s' \<Longrightarrow> caller s = Returned r \<Longrightarrow>
   caller s' = Returned r \<and> (worker s \<noteq> Exited \<longrightarrow> worker s' \<noteq> Exited)"
  by (erule race_step.cases) auto

lemma race_steps_after_return:
  "(race_step fr v t)\<^sup>*\<^sup>* s s' \<Longrightarrow> caller s = Returned r \<Longrightarrow> worker s \<noteq> Exited \<Longrightarrow>
   caller s' = Returned r \<and> worker s' \<noteq> Exited"
proof (induction rule: rtranclp_induct)
  case base
  then show ?case by simp
next
  case (step y z)
  then show ?case using race_step_after_return by metis
qed

lemma race_inv_init: "race_inv v t race_init"
  by (simp add: race_inv_def race_init_def)

lemma race_inv_step: "race_step fr v t s s' \<Longrightarrow> race_inv v t s \<Longrightarrow> race_inv v t s'"
  by (erule race_step.cases) (auto simp: race_inv_def split: caller_pc.splits)

lemma race_inv_reachable: "(race_step fr v t)\<^sup>*\<^sup>* race_init s \<Longrightarrow> race_inv v t s"
proof (induction rule: rtranclp_induct)
  case base
  then show ?case by (rule race_inv_init)
next
  case (step y z)
  then show ?case using race_inv_step by metis
qed

lemma timeout_then_send_reachable:
  "(race_step True v t)\<^sup>*\<^sup>* race_init \<lparr>worker = Sending, timer_fired = True, caller = Returned t\<rparr>"
proof -
  have 1: "race_step True v t race_init (race_init\<lparr>timer_fired := True\<rparr>)"
    by (rule timer_fires) (simp add: race_init_def)
  have 2: "race_step True v t (race_init\<lparr>timer_fired := True\<rparr>)
             (race_init\<lparr>timer_fired := True, caller := Returned t\<rparr>)"
    using caller_receives_timeout [of "race_init\<lparr>timer_fired := True\<rparr>" True v t]
    by (simp add: race_init_def)
  have 3: "race_step True v t (race_init\<lparr>timer_fired := True, caller := Returned t\<rparr>)
             (race_init\<lparr>timer_fired := True, caller := Returned t, worker := Sending\<rparr>)"
    using worker_reaches_send [of True "race_init\<lparr>timer_fired := True, caller := Returned t\<rparr>" v t]
    by (simp add: race_init_def)
  have "(race_step True v t)\<^sup>*\<^sup>* race_init
          (race_init\<lparr>timer_fired := True, caller := Returned t, worker := Sending\<rparr>)"
    using 1 2 3 by (meson rtranclp.rtrancl_into_rtrancl rtranclp.rtrancl_refl)
  then show ?thesis by (simp add: race_init_def)
qed

lemma blocked_sender_stuck:
  "\<not> race_step fr v t \<lparr>worker = Sending, timer_fired = True, caller = Returned r\<rparr> s'"
  by (auto elim: race_step.cases)

text \<open>
  C2.  In every reachable state in which the caller has returned, it returned either
  the worker's value, and the worker has exited, or the timeout result, and the worker
  has not; the caller's result never changes afterwards.  Once the caller has returned
  on the timeout, the worker never exits: it can still finish its fetch and reach its
  send (that state is reachable), and there no step is left to any party, because
  nobody receives from the unbuffered channel any more.
\<close>

theorem worker_never_exits_after_timeout:
  "((race_step fr v t)\<^sup>*\<^sup>* race_init s \<and> caller s = Returned r \<longrightarrow>
      (r = v \<and> worker s = Exited) \<or> (r = t \<and> worker s \<noteq> Exited \<and> timer_fired s)) \<and>
   ((race_step fr v t)\<^sup>*\<^sup>* s s' \<and> caller s = Returned r \<and> worker s \<noteq> Exited \<longrightarrow>
      caller s' = Returned r \<and> worker s' \<noteq> Exited) \<and>
   (race_step True v t)\<^sup>*\<^sup>* race_init \<lparr>worker = Sending, timer_fired = True, caller = Returned t\<rparr> \<and>
   (\<forall>s''. \<not> race_step fr v t \<lparr>worker = Sending, timer_fired = True, caller = Returned t\<rparr> s'')"
proof -
  have a: "(r = v \<and> worker s = Exited) \<or> (r = t \<and> worker s \<noteq> Exited \<and> timer_fired s)"
    if "(race_step fr v t)\<^sup>*\<^sup>* race_init s" "caller s = Returned r"
    using race_inv_reachable [OF that(1)] that(2) by (simp add: race_inv_def)
  have b: "caller s' = Returned r \<and> worker s' \<noteq> Exited"
    if "(race_step fr v t)\<^sup>*\<^sup>* s s'" "caller s = Returned r" "worker s \<noteq> Exited"
    using race_steps_after_return [OF that] .
  show ?thesis
    using a b timeout_then_send_reachable [of v t] blocked_sender_stuck [of fr v t t]
    by blast
qed

theorem worker_never_exits_after_timeout_witness:
  "(race_step True (one_two, None :: error option) (Location_zero, Some TimeoutError))\<^sup>*\<^sup>*
      race_init
      \<lparr>worker = Fetching, timer_fired = True, caller = Returned (Location_zero, Some TimeoutError)\<rparr> \<and>
   (race_step True (one_two, None) (Location_zero, Some TimeoutError))\<^sup>*\<^sup>*
      \<lparr>worker = Fetching, timer_fired = True, caller = Returned (Location_zero, Some TimeoutError)\<rparr>
      \<lparr>worker = Sending, timer_fired = True, caller = Returned (Location_zero, Some TimeoutError)\<rparr> \<and>
   caller \<lparr>worker = Fetching, timer_fired = True,
           caller = Returned (Location_zero, Some TimeoutError)\<rparr>
     = Returned (Location_zero, Some TimeoutError) \<and>
   worker \<lparr>worker = Fetching, timer_fired = True,
           caller = Returned (Location_zero, Some TimeoutError)\<rparr> \<noteq> Exited \<and>
   worker \<lparr>worker = Sending, timer_fired = True,
           caller = Returned (Location_zero, Some TimeoutError)\<rparr> \<noteq> Exited"
proof -
  let ?v = "(one_two, None :: error option)"
  let ?t = "(Location_zero, Some TimeoutError)"
  let ?s1 = "\<lparr>worker = Fetching, timer_fired = True, caller = Returned ?t\<rparr>"
  let ?s2 = "\<lparr>worker = Sending, timer_fired = True, caller = Returned ?t\<rparr>"
  have 1: "race_step True ?v ?t race_init (race_init\<lparr>timer_fired := True\<rparr>)"
    by (rule timer_fires) (simp add: race_init_def)
  have 2: "race_step True ?v ?t (race_init\<lparr>timer_fired := True\<rparr>) ?s1"
    using caller_receives_timeout [of "race_init\<lparr>timer_fired := True\<rparr>" True ?v ?t]
    by (simp add: race_init_def)
  have r1: "(race_step True ?v ?t)\<^sup>*\<^sup>* race_init ?s1"
    using 1 2 by (meson rtranclp.rtrancl_into_rtrancl rtranclp.rtrancl_refl)
  have 3: "race_step True ?v ?t ?s1 ?s2"
    using worker_reaches_send [of True ?s1 ?v ?t] by simp
  then have r2: "(race_step True ?v ?t)\<^sup>*\<^sup>* ?s1 ?s2" by (rule r_into_rtranclp)
  have c: "caller ?s1 = Returned ?t" and w: "worker ?s1 \<noteq> Exited" by simp_all
  have "worker ?s2 \<noteq> Exited"
    using r2 c w
      worker_never_exits_after_timeout [where fr=True and v="?v" and t="?t" and s="?s1"
        and s'="?s2" and r="?t"]
    by blast
  with r1 r2 c w show ?thesis by blast
qed

subsection \<open>The scanner on JSON texts\<close>

















lemma neutral_comma: "f < d \<Longrightarrow> scan_neutral f d '',''"
  by (simp add: scan_neutral_def is_open_def is_close_def)






subsection \<open>What the trim removes\<close>








subsection \<open>An array of several elements, trimmed\<close>






subsection \<open>Concrete JSON texts\<close>










subsection \<open>The trim and the decoder\<close>






end
